theory Spec2Isabelle
  imports Complex_Main
begin

section \<open>Geometry and goal-selection utilities of \<open>utils.py\<close>\<close>

text \<open>
  The Python module computes with IEEE double-precision numbers. The embedding below
  reads every float as a real number: arithmetic is exact, \<open>math.sqrt\<close> and
  \<open>np.sqrt\<close> are \<^const>\<open>sqrt\<close>, and the literals \<open>1e-7\<close> and \<open>1e9\<close> are
  \<open>1 / 10 ^ 7\<close> and \<open>10 ^ 9\<close>. Rounding error, overflow, underflow and NaN are
  outside the model. Every \<open>raise\<close> of the source is a value of \<open>error\<close>, and
  \<open>NotFinite\<close> stands for a NumPy division by zero, which raises nothing and yields
  \<open>inf\<close> or \<open>nan\<close>, values that no real number represents; a loop that
  may run forever is a partial function whose value \<open>None\<close> means that the call does
  not return.
\<close>

subsection \<open>Data model\<close>

type_synonym point = "real \<times> real"

datatype error = IndexError | ZeroDivisionError | TypeError | AttributeError | ValueError | NotFinite

text \<open>The subscript \<open>xs[i]\<close> of a Python sequence. For \<open>i\<close> below zero the element is
  taken \<open>-i\<close> places before the end; outside \<open>-len(xs) \<le> i < len(xs)\<close> the
  subscript raises.\<close>

definition py_index :: "'a list \<Rightarrow> int \<Rightarrow> error + 'a" where
  "py_index xs i =
     (if 0 \<le> i \<and> i < int (length xs) then Inr (xs ! nat i)
      else if i < 0 \<and> - int (length xs) \<le> i then Inr (xs ! nat (int (length xs) + i))
      else Inl IndexError)"

text \<open>Componentwise arithmetic of two-element NumPy arrays.\<close>

definition pt_add :: "point \<Rightarrow> point \<Rightarrow> point" where
  "pt_add p q = (fst p + fst q, snd p + snd q)"

definition pt_sub :: "point \<Rightarrow> point \<Rightarrow> point" where
  "pt_sub p q = (fst p - fst q, snd p - snd q)"

definition pt_half :: "point \<Rightarrow> point" where
  "pt_half p = (fst p / 2, snd p / 2)"

text \<open>\<open>np.dot\<close> of two planar vectors and \<open>np.linalg.norm\<close> of one.\<close>

definition np_dot :: "point \<Rightarrow> point \<Rightarrow> real" where
  "np_dot u v = fst u * fst v + snd u * snd v"

definition np_norm :: "point \<Rightarrow> real" where
  "np_norm v = sqrt ((fst v)\<^sup>2 + (snd v)\<^sup>2)"

subsection \<open>Geometry primitives\<close>

text \<open>\<open>get_dis_p2p(point, point_)\<close>, lines 126-127.\<close>

definition get_dis_p2p :: "point \<Rightarrow> point \<Rightarrow> real" where
  "get_dis_p2p p q = sqrt ((fst p - fst q)\<^sup>2 + (snd p - snd q)\<^sup>2)"

text \<open>\<open>get_unit_vector(point_a, point_b)\<close>, lines 113-119. \<open>math.sqrt\<close> returns a
  Python float, and \<open>1 / 0.0\<close> raises \<open>ZeroDivisionError\<close>.\<close>

definition get_unit_vector :: "point \<Rightarrow> point \<Rightarrow> error + point" where
  "get_unit_vector point_a point_b =
     (let der_x = fst point_b - fst point_a;
          der_y = snd point_b - snd point_a;
          len = sqrt (der_x\<^sup>2 + der_y\<^sup>2)
      in if len = 0 then Inl ZeroDivisionError
         else (let scale = 1 / len in Inr (der_x * scale, der_y * scale)))"


subsection \<open>Goal lattice generator\<close>

text \<open>A Python number is an \<open>int\<close> or a \<open>float\<close>. The two kinds matter where a built-in
  accepts only one of them; as dictionary keys, equal numbers of either kind are the same
  key, so keys are kept by value.\<close>

datatype py_num = PyInt int | PyFloat real

fun num_val :: "py_num \<Rightarrow> real" where
  "num_val (PyInt n) = real_of_int n"
| "num_val (PyFloat x) = x"

text \<open>Python rounds to the nearest integer and a tie to the even one.\<close>

definition round_half_even :: "real \<Rightarrow> int" where
  "round_half_even x =
     (let f = \<lfloor>x\<rfloor>; d = x - real_of_int f
      in if d < 1 / 2 then f else if 1 / 2 < d then f + 1 else if even f then f else f + 1)"

text \<open>\<open>round(x, ndigits)\<close>: the multiple of \<open>10 ^ (-ndigits)\<close> nearest to \<open>x\<close>. The second
  argument has to be an \<open>int\<close>: with a \<open>float\<close> the built-in raises \<open>TypeError\<close>, for an
  \<open>int\<close> \<open>x\<close> as for a \<open>float\<close> one.\<close>

fun py_round :: "real \<Rightarrow> py_num \<Rightarrow> error + real" where
  "py_round x (PyFloat d) = Inl TypeError"
| "py_round x (PyInt d) = Inr (real_of_int (round_half_even (x * 10 powi d)) / 10 powi d)"

text \<open>A dictionary used as a set of keys: the keys in the order of their first insertion,
  which is the order of \<open>list(grid.keys())\<close>.\<close>

definition grid_insert :: "'k \<Rightarrow> 'k list \<Rightarrow> 'k list" where
  "grid_insert k grid = (if k \<in> set grid then grid else grid @ [k])"

text \<open>\<open>get_points_remove_repeated(points, decimal=1)\<close>, lines 35-43.\<close>

definition get_hash_point :: "py_num \<Rightarrow> point \<Rightarrow> error + point" where
  "get_hash_point decimal pt =
     (case py_round (fst pt) decimal of
        Inl e \<Rightarrow> Inl e
      | Inr a \<Rightarrow> (case py_round (snd pt) decimal of Inl e \<Rightarrow> Inl e | Inr b \<Rightarrow> Inr (a, b)))"

text \<open>The key of a point at an integer precision \<open>d\<close>: both coordinates rounded to
  \<open>d\<close> decimals, as \<open>get_hash_point\<close> computes it (lines 36-37).\<close>

definition hash_key :: "int \<Rightarrow> point \<Rightarrow> point" where
  "hash_key d pt = (real_of_int (round_half_even (fst pt * 10 powi d)) / 10 powi d,
                    real_of_int (round_half_even (snd pt * 10 powi d)) / 10 powi d)"

fun remove_repeated_loop :: "py_num \<Rightarrow> point list \<Rightarrow> point list \<Rightarrow> error + point list" where
  "remove_repeated_loop decimal [] grid = Inr grid"
| "remove_repeated_loop decimal (each # points) grid =
     (case get_hash_point decimal each of
        Inl e \<Rightarrow> Inl e
      | Inr k \<Rightarrow> remove_repeated_loop decimal points (grid_insert k grid))"

definition get_points_remove_repeated :: "point list \<Rightarrow> py_num \<Rightarrow> error + point list" where
  "get_points_remove_repeated points decimal = remove_repeated_loop decimal points []"

text \<open>The two \<open>while\<close> loops of \<open>get_neighbour_points_new\<close>, lines 68-73, with
  \<open>eps = 1e-5\<close>. No bound is built in: a step that is not positive never reaches the end,
  and the value is \<open>None\<close>.\<close>

partial_function (option) lattice_row ::
  "real \<Rightarrow> real \<Rightarrow> real \<Rightarrow> real \<Rightarrow> real \<Rightarrow> point list \<Rightarrow> point list option" where
  "lattice_row i j y neighbour_dis density grid =
     (if j < y + neighbour_dis + 1 / 10 ^ 5
      then lattice_row i (j + density) y neighbour_dis density (grid_insert (i, j) grid)
      else Some grid)"

partial_function (option) lattice_rows ::
  "real \<Rightarrow> real \<Rightarrow> real \<Rightarrow> real \<Rightarrow> real \<Rightarrow> point list \<Rightarrow> point list option" where
  "lattice_rows i x y neighbour_dis density grid =
     (if i < x + neighbour_dis + 1 / 10 ^ 5
      then Option.bind (lattice_row i (y - neighbour_dis) y neighbour_dis density grid)
             (\<lambda>grid'. lattice_rows (i + density) x y neighbour_dis density grid')
      else Some grid)"

text \<open>The loop over the input points, lines 64-73.\<close>

fun lattice_points :: "point list \<Rightarrow> real \<Rightarrow> real \<Rightarrow> point list \<Rightarrow> point list option" where
  "lattice_points [] neighbour_dis density grid = Some grid"
| "lattice_points (pt # points) neighbour_dis density grid =
     (let x = round_half_even (fst pt); y = round_half_even (snd pt)
      in if - 100 \<le> x \<and> x \<le> 100 \<and> - 100 \<le> y \<and> y \<le> 100
         then Option.bind
                (lattice_rows (real_of_int x - neighbour_dis) (real_of_int x) (real_of_int y)
                   neighbour_dis density grid)
                (\<lambda>grid'. lattice_points points neighbour_dis density grid')
         else lattice_points points neighbour_dis density grid)"

text \<open>\<open>get_neighbour_points_new(points, neighbour_dis=2, density=1.0)\<close>, lines 61-78. The
  step \<open>density\<close> is handed to \<open>get_points_remove_repeated\<close> as its \<open>decimal\<close>.\<close>

definition get_neighbour_points_new ::
  "point list \<Rightarrow> real \<Rightarrow> py_num \<Rightarrow> (error + point list) option" where
  "get_neighbour_points_new points neighbour_dis density =
     map_option (\<lambda>grid. get_points_remove_repeated grid density)
       (lattice_points points neighbour_dis (num_val density) [])"

subsection \<open>Reference path constructor\<close>

text \<open>\<open>get_dis_batch(points, point_label)\<close>, lines 122-123, and \<open>np.argmin\<close>: the first
  index of a least entry, a \<open>ValueError\<close> on an empty array.\<close>

definition get_dis_batch :: "point list \<Rightarrow> point \<Rightarrow> real list" where
  "get_dis_batch points point_label = map (\<lambda>p. get_dis_p2p p point_label) points"

fun argmin_scan :: "real list \<Rightarrow> nat \<Rightarrow> nat \<Rightarrow> real \<Rightarrow> nat" where
  "argmin_scan [] i best_i best = best_i"
| "argmin_scan (x # xs) i best_i best =
     (if x < best then argmin_scan xs (Suc i) i x else argmin_scan xs (Suc i) best_i best)"

definition np_argmin :: "real list \<Rightarrow> error + nat" where
  "np_argmin xs = (case xs of [] \<Rightarrow> Inl ValueError | x # rest \<Rightarrow> Inr (argmin_scan rest 1 0 x))"

text \<open>The slice \<open>xs[k:]\<close> of a Python list: a negative \<open>k\<close> counts from the end and is
  clipped at the start of the list.\<close>

definition py_slice_from :: "'a list \<Rightarrow> int \<Rightarrow> 'a list" where
  "py_slice_from xs k =
     (if k < 0 then drop (nat (max 0 (int (length xs) + k))) xs else drop (nat k) xs)"

text \<open>One pass of the densifying loop, lines 201-205: every point but the last is
  followed by its midpoint with the next point. On the empty path \<open>reference_path[-1]\<close>
  raises, which \<open>densify\<close> below tests before the pass.\<close>

fun densify_pass :: "point list \<Rightarrow> point list" where
  "densify_pass [] = []"
| "densify_pass [p] = [p]"
| "densify_pass (p # q # ps) = p # pt_half (pt_add p q) # densify_pass (q # ps)"

text \<open>The loop of lines 200-206. It has no bound of its own: the value \<open>None\<close> is a loop
  that never ends.\<close>

partial_function (option) densify :: "point list \<Rightarrow> (error + point list) option" where
  "densify reference_path =
     (if length reference_path < 9
      then (if reference_path = [] then Some (Inl IndexError)
            else densify (densify_pass reference_path))
      else Some (Inr reference_path))"

text \<open>Lines 209-212: the index of the point closest to the target, and the path shifted
  so that this point is the target.\<close>

definition recenter :: "point list \<Rightarrow> point \<Rightarrow> error + (point list \<times> nat)" where
  "recenter reference_path point_label =
     (case np_argmin (get_dis_batch reference_path point_label) of
        Inl e \<Rightarrow> Inl e
      | Inr closest_point_idx \<Rightarrow>
          (let closest_point = reference_path ! closest_point_idx
           in Inr (map (\<lambda>p. pt_sub p (pt_sub closest_point point_label)) reference_path,
                   closest_point_idx)))"

text \<open>Lines 217-230: the radius \<open>R\<close>. The subscript \<open>-future_frame_num//2\<close> is the floor
  of \<open>-future_frame_num / 2\<close>, and each subscript of \<open>labels\<close> may raise.\<close>

definition filter_radius :: "point list \<Rightarrow> point list \<Rightarrow> nat \<Rightarrow> int \<Rightarrow> error + real" where
  "filter_radius labels reference_path closest_point_idx future_frame_num =
     (case py_index labels (- 1) of
        Inl e \<Rightarrow> Inl e
      | Inr label_last \<Rightarrow>
          (case py_index labels ((- future_frame_num) div 2) of
             Inl e \<Rightarrow> Inl e
           | Inr label_half \<Rightarrow>
               (case py_index labels 0 of
                  Inl e \<Rightarrow> Inl e
                | Inr label_first \<Rightarrow>
                    Inr (max
                          (min (min (max 15 (get_dis_p2p label_last label_half))
                                    (get_dis_p2p label_last label_first))
                               (max (get_dis_p2p (last reference_path) (reference_path ! closest_point_idx))
                                    (get_dis_p2p (hd reference_path) (reference_path ! closest_point_idx))))
                          3))))"

text \<open>The loop of lines 244-246: the number of trailing labels, from the last one
  backwards, within \<open>R\<close> of the closest point. \<open>labels[-1-i]\<close> is read only for
  \<open>i < len(labels)\<close>.\<close>

function traj_scan :: "point list \<Rightarrow> point \<Rightarrow> real \<Rightarrow> nat \<Rightarrow> nat" where
  "traj_scan labels closest R i =
     (if i < length labels \<and> get_dis_p2p (labels ! (length labels - 1 - i)) closest \<le> R
      then traj_scan labels closest R (Suc i) else i)"
  by pat_completeness auto
termination
  by (relation "measure (\<lambda>(labels, closest, R, i). length labels - i)") auto

declare traj_scan.simps [simp del]

text \<open>Lines 250-254: the direction of the trajectory. The bare \<open>except\<close> turns every
  failure, a subscript out of range or a zero-length vector, into \<open>has_traj = False\<close>,
  which is \<open>None\<close> here.\<close>

definition traj_direction_of :: "point list \<Rightarrow> int \<Rightarrow> point option" where
  "traj_direction_of labels future_frame_num =
     (case py_index labels (- 1) of
        Inl e \<Rightarrow> None
      | Inr label_last \<Rightarrow>
          (case py_index labels ((- future_frame_num) div 3) of
             Inl e \<Rightarrow> None
           | Inr label_third \<Rightarrow>
               (case get_unit_vector label_last label_third of
                  Inl e \<Rightarrow> None
                | Inr traj_direction \<Rightarrow> Some traj_direction)))"

text \<open>The local variables of \<open>construct_reference_path\<close> when the splice begins.\<close>

record splice_input =
  filtered_path :: "point list"
  closest_idx :: nat
  radius :: real
  traj_segment :: "point list"
  traj_direction :: "point option"

text \<open>Lines 208-254, from the densified path to the splice. The trajectory \<open>labels\<close> is a
  Python list, so that \<open>+\<close> in the splice concatenates. Were the filtered path empty,
  \<open>get_dis_batch\<close> would raise on its subscript at line 239.\<close>

definition before_splice :: "point list \<Rightarrow> point list \<Rightarrow> point \<Rightarrow> int \<Rightarrow> error + splice_input" where
  "before_splice labels dense_path point_label future_frame_num =
     (case recenter dense_path point_label of
        Inl e \<Rightarrow> Inl e
      | Inr (reference_path, closest_point_idx) \<Rightarrow>
          (case filter_radius labels reference_path closest_point_idx future_frame_num of
             Inl e \<Rightarrow> Inl e
           | Inr R \<Rightarrow>
               (let filtered_reference_path =
                      filter (\<lambda>p. get_dis_p2p p point_label \<le> R) reference_path
                in if filtered_reference_path = [] then Inl IndexError
                   else (case np_argmin (get_dis_batch filtered_reference_path point_label) of
                           Inl e \<Rightarrow> Inl e
                         | Inr idx \<Rightarrow>
                             (let i = traj_scan labels (filtered_reference_path ! idx) R 0;
                                  i' = max 0 (int i - 1)
                              in Inr \<lparr>filtered_path = filtered_reference_path,
                                      closest_idx = idx,
                                      radius = R,
                                      traj_segment = py_slice_from labels (- 1 - i'),
                                      traj_direction = traj_direction_of labels future_frame_num\<rparr>)))))"

text \<open>Lines 256-289: the splice of the trajectory into the path.\<close>

definition splice_trajectory :: "splice_input \<Rightarrow> error + point list" where
  "splice_trajectory v =
     (let reference_path = filtered_path v;
          closest_point_idx = closest_idx v;
          start_dist = np_norm (pt_sub (reference_path ! closest_point_idx) (hd reference_path));
          end_dist = np_norm (pt_sub (reference_path ! closest_point_idx) (last reference_path))
      in case traj_direction v of
           None \<Rightarrow> Inr reference_path
         | Some traj_dir \<Rightarrow>
             if start_dist \<le> 1 / 10 ^ 7 \<and> end_dist \<le> 1 / 10 ^ 7 then Inr reference_path
             else if start_dist \<le> 1 / 10 ^ 7 then
               (case get_unit_vector (reference_path ! closest_point_idx) (last reference_path) of
                  Inl e \<Rightarrow> Inl e
                | Inr end_direction \<Rightarrow>
                    if 0 < np_dot traj_dir end_direction then Inr (traj_segment v)
                    else Inr (traj_segment v @ drop closest_point_idx reference_path))
             else if end_dist \<le> 1 / 10 ^ 7 then
               (case get_unit_vector (reference_path ! closest_point_idx) (hd reference_path) of
                  Inl e \<Rightarrow> Inl e
                | Inr start_direction \<Rightarrow>
                    if 0 < np_dot traj_dir start_direction then Inr (traj_segment v)
                    else Inr (take closest_point_idx reference_path @ rev (traj_segment v)))
             else
               (case get_unit_vector (reference_path ! closest_point_idx) (hd reference_path) of
                  Inl e \<Rightarrow> Inl e
                | Inr start_direction \<Rightarrow>
                    (case get_unit_vector (reference_path ! closest_point_idx) (last reference_path) of
                       Inl e \<Rightarrow> Inl e
                     | Inr end_direction \<Rightarrow>
                         (let start_hypo = np_dot traj_dir start_direction;
                              end_hypo = np_dot traj_dir end_direction
                          in if start_hypo * end_hypo \<le> 0 \<and>
                                \<not> (\<bar>start_hypo\<bar> \<le> 1 / 10 ^ 7 \<and> \<bar>end_hypo\<bar> \<le> 1 / 10 ^ 7)
                             then (if start_hypo < end_hypo
                                   then Inr (take closest_point_idx reference_path @ rev (traj_segment v))
                                   else Inr (traj_segment v @ drop closest_point_idx reference_path))
                             else Inr reference_path))))"

text \<open>\<open>construct_reference_path(labels, reference_path, point_label, future_frame_num)\<close>,
  lines 198-291, and the radius it filters with.\<close>

definition construct_reference_path ::
  "point list \<Rightarrow> point list \<Rightarrow> point \<Rightarrow> int \<Rightarrow> (error + point list) option" where
  "construct_reference_path labels reference_path point_label future_frame_num =
     (case densify reference_path of
        None \<Rightarrow> None
      | Some (Inl e) \<Rightarrow> Some (Inl e)
      | Some (Inr dense_path) \<Rightarrow>
          (case before_splice labels dense_path point_label future_frame_num of
             Inl e \<Rightarrow> Some (Inl e)
           | Inr v \<Rightarrow> Some (splice_trajectory v)))"

definition construct_reference_path_radius ::
  "point list \<Rightarrow> point list \<Rightarrow> point \<Rightarrow> int \<Rightarrow> (error + real) option" where
  "construct_reference_path_radius labels reference_path point_label future_frame_num =
     (case densify reference_path of
        None \<Rightarrow> None
      | Some (Inl e) \<Rightarrow> Some (Inl e)
      | Some (Inr dense_path) \<Rightarrow>
          (case before_splice labels dense_path point_label future_frame_num of
             Inl e \<Rightarrow> Some (Inl e)
           | Inr v \<Rightarrow> Some (Inr (radius v))))"

subsection \<open>Projection onto a quadratic curve\<close>

text \<open>The dictionary of the six coefficients of the curve
  \<open>(a_2 t\<^sup>2 + a_1 t + a_0, b_2 t\<^sup>2 + b_1 t + b_0)\<close>.\<close>

record coeffs =
  a_2 :: real
  a_1 :: real
  a_0 :: real
  b_2 :: real
  b_1 :: real
  b_0 :: real

text \<open>\<open>solve_cubic(c_3, c_2, c_1, c_0, range=[0, 1])\<close>, lines 297-303. \<open>np.roots\<close> is a
  library routine: it is the parameter \<open>np_roots\<close>, from the coefficient list to the
  complex roots it reports, and nothing is assumed about it. The parameter \<open>range\<close> is
  \<open>rng\<close> here. \<open>np.isreal\<close> tests
  that the imaginary part is zero.\<close>

definition solve_cubic ::
  "(real list \<Rightarrow> complex list) \<Rightarrow> real \<Rightarrow> real \<Rightarrow> real \<Rightarrow> real \<Rightarrow> real \<times> real \<Rightarrow> complex list" where
  "solve_cubic np_roots c_3 c_2 c_1 c_0 rng =
     filter (\<lambda>root. Im root = 0 \<and> fst rng \<le> Re root \<and> Re root \<le> snd rng)
       (np_roots [c_3, c_2, c_1, c_0])"

text \<open>The point of the curve at parameter \<open>t\<close> (lines 327 and 333-336) and the squared
  distance of line 328.\<close>

definition curve_point :: "coeffs \<Rightarrow> real \<Rightarrow> point" where
  "curve_point coeff t =
     (a_2 coeff * t\<^sup>2 + a_1 coeff * t + a_0 coeff, b_2 coeff * t\<^sup>2 + b_1 coeff * t + b_0 coeff)"

definition sq_dist :: "point \<Rightarrow> point \<Rightarrow> real" where
  "sq_dist p q = (fst p - fst q)\<^sup>2 + (snd p - snd q)\<^sup>2"

text \<open>The coefficients of the cubic, lines 314-317.\<close>

definition cubic_c_3 :: "coeffs \<Rightarrow> real" where
  "cubic_c_3 coeff = 4 * (a_2 coeff)\<^sup>2 + 4 * (b_2 coeff)\<^sup>2"

definition cubic_c_2 :: "coeffs \<Rightarrow> real" where
  "cubic_c_2 coeff = 6 * a_1 coeff * a_2 coeff + 6 * b_1 coeff * b_2 coeff"

definition cubic_c_1 :: "point \<Rightarrow> coeffs \<Rightarrow> real" where
  "cubic_c_1 point coeff =
     - 4 * a_2 coeff * fst point + 2 * (a_1 coeff)\<^sup>2 + 4 * a_0 coeff * a_2 coeff
     - 4 * b_2 coeff * snd point + 2 * (b_1 coeff)\<^sup>2 + 4 * b_0 coeff * b_2 coeff"

definition cubic_c_0 :: "point \<Rightarrow> coeffs \<Rightarrow> real" where
  "cubic_c_0 point coeff =
     - 2 * a_1 coeff * fst point + 2 * a_0 coeff * a_1 coeff
     - 2 * b_1 coeff * snd point + 2 * b_0 coeff * b_1 coeff"

text \<open>The loop of lines 323-331 over the candidate parameters. \<open>min_dist\<close> starts as
  \<open>float('inf')\<close> and \<open>t_hat\<close> as \<open>None\<close>: both are \<open>None\<close> here until the first
  candidate is taken, and every distance is below infinity. The variables \<open>dist\<close>
  and \<open>root\<close> are \<open>dist_t\<close> and \<open>root_t\<close> here.\<close>

definition below :: "real \<Rightarrow> real option \<Rightarrow> bool" where
  "below dist_t min_dist = (case min_dist of None \<Rightarrow> True | Some m \<Rightarrow> dist_t < m)"

fun inv_proj_loop ::
  "point \<Rightarrow> coeffs \<Rightarrow> real list \<Rightarrow> real option \<Rightarrow> real option \<Rightarrow> real option \<times> real option" where
  "inv_proj_loop point coeff [] t_hat min_dist = (t_hat, min_dist)"
| "inv_proj_loop point coeff (root_t # roots) t_hat min_dist =
     (let dist_t = sq_dist point (curve_point coeff root_t)
      in if below dist_t min_dist then inv_proj_loop point coeff roots (Some root_t) (Some dist_t)
         else inv_proj_loop point coeff roots t_hat min_dist)"

text \<open>\<open>inv_proj(point, coeff)\<close>, lines 309-338. The roots that \<open>solve_cubic\<close> admits have
  imaginary part zero, so the curve is evaluated at their real parts, which is also what
  \<open>t_hat.real\<close> returns. Were no candidate taken, \<open>t_hat\<close> would still be \<open>None\<close> at
  line 334 and the call would raise.\<close>

definition inv_proj_candidates :: "(real list \<Rightarrow> complex list) \<Rightarrow> point \<Rightarrow> coeffs \<Rightarrow> real list" where
  "inv_proj_candidates np_roots point coeff =
     map Re (solve_cubic np_roots (cubic_c_3 coeff) (cubic_c_2 coeff)
               (cubic_c_1 point coeff) (cubic_c_0 point coeff) (0, 1)) @ [0, 1]"

definition inv_proj :: "(real list \<Rightarrow> complex list) \<Rightarrow> point \<Rightarrow> coeffs \<Rightarrow> error + (real \<times> point)" where
  "inv_proj np_roots point coeff =
     (case fst (inv_proj_loop point coeff (inv_proj_candidates np_roots point coeff) None None) of
        None \<Rightarrow> Inl AttributeError
      | Some t_hat \<Rightarrow> Inr (t_hat, curve_point coeff t_hat))"


subsection \<open>Goal scoring and loss\<close>

text \<open>The entries of the per-example dictionary \<open>mapping\<close> that the scoring functions
  read.\<close>

record mapping =
  labels :: "point list"
  quadratic_path :: "coeffs option"

text \<open>Results of a loop body that may raise, gathered in order: the first error ends the
  loop.\<close>

fun collect :: "(error + 'a) list \<Rightarrow> error + 'a list" where
  "collect [] = Inr []"
| "collect (Inl e # rs) = Inl e"
| "collect (Inr v # rs) = (case collect rs of Inl e \<Rightarrow> Inl e | Inr vs \<Rightarrow> Inr (v # vs))"

text \<open>Lines 458-462 and 486-490: the distance from a goal to its projection on the fitted
  curve, and \<open>0.0\<close> when \<open>quadratic_path\<close> is \<open>None\<close>.\<close>

definition traj_dist_of :: "(real list \<Rightarrow> complex list) \<Rightarrow> coeffs option \<Rightarrow> point \<Rightarrow> error + real" where
  "traj_dist_of np_roots qp goal =
     (case qp of
        None \<Rightarrow> Inr 0
      | Some coeff \<Rightarrow>
          (case inv_proj np_roots goal coeff of
             Inl e \<Rightarrow> Inl e
           | Inr (t_hat, point_hat) \<Rightarrow> Inr (get_dis_p2p goal point_hat)))"

text \<open>The body of the loop of \<open>get_dense_goal_targets\<close>, lines 455-465. The potential of
  line 463 is a NumPy float unless \<open>max\<close> picks the Python float \<open>-1e9\<close>, which it does
  when the potential is below it; dividing a NumPy float by zero gives no real number,
  dividing a Python float by zero raises.\<close>

definition dense_goal_target ::
  "(real list \<Rightarrow> complex list) \<Rightarrow> coeffs option \<Rightarrow> real \<Rightarrow> real \<Rightarrow> real \<Rightarrow> real \<Rightarrow> point \<Rightarrow> point
     \<Rightarrow> error + real" where
  "dense_goal_target np_roots qp T K1 K2 thres ground_truth_goal goal =
     (let goal_dist = get_dis_p2p goal ground_truth_goal
      in if goal_dist \<le> thres then
           (case traj_dist_of np_roots qp goal of
              Inl e \<Rightarrow> Inl e
            | Inr traj_dist \<Rightarrow>
                (let potential = - (1 / 2) * K1 * goal_dist\<^sup>2 - (1 / 2) * K2 * traj_dist\<^sup>2
                 in if T = 0 then (if potential < - (10 ^ 9) then Inl ZeroDivisionError else Inl NotFinite)
                    else Inr (max potential (- (10 ^ 9)) / T)))
         else if T = 0 then Inl ZeroDivisionError
         else Inr (- (10 ^ 9) / T))"

text \<open>\<open>get_dense_goal_targets(dense_goals, mapping, T=50.0, K1=1.0, K2=2.0, thres=15.0)\<close>,
  lines 449-467.\<close>

definition get_dense_goal_targets ::
  "(real list \<Rightarrow> complex list) \<Rightarrow> point list \<Rightarrow> mapping \<Rightarrow> real \<Rightarrow> real \<Rightarrow> real \<Rightarrow> real
     \<Rightarrow> error + real list" where
  "get_dense_goal_targets np_roots dense_goals mp T K1 K2 thres =
     (case py_index (labels mp) (- 1) of
        Inl e \<Rightarrow> Inl e
      | Inr ground_truth_goal \<Rightarrow>
          collect (map (dense_goal_target np_roots (quadratic_path mp) T K1 K2 thres ground_truth_goal)
                     dense_goals))"

text \<open>\<open>square_square_energy_loss_from_prep(dense_goal_scores, target_energy_idx, mo_idx,
  m=10.0, eps=10.0)\<close>, lines 499-512. The scores are a one-dimensional tensor, subscripted
  as a Python sequence; \<open>eps\<close> is not used by the body.\<close>

definition square_square_energy_loss_from_prep ::
  "real list \<Rightarrow> int \<Rightarrow> int option \<Rightarrow> real \<Rightarrow> real \<Rightarrow> error + real" where
  "square_square_energy_loss_from_prep dense_goal_scores target_energy_idx mo_idx m eps =
     (case py_index dense_goal_scores target_energy_idx of
        Inl e \<Rightarrow> Inl e
      | Inr target_energy \<Rightarrow>
          (let loss = target_energy\<^sup>2
           in case mo_idx of
                None \<Rightarrow> Inr loss
              | Some j \<Rightarrow>
                  (case py_index dense_goal_scores j of
                     Inl e \<Rightarrow> Inl e
                   | Inr mo_target_energy \<Rightarrow>
                       if mo_target_energy < m then Inr (loss + (m - mo_target_energy)\<^sup>2)
                       else Inr loss)))"

subsection \<open>Weighted centroid refinement\<close>

text \<open>The matrix \<open>dist\<close> of lines 601-604, a row of six distances for each goal, and the
  row minima \<open>m\<close> of line 606.\<close>

definition fde_dist :: "point list \<Rightarrow> point list \<Rightarrow> real list list" where
  "fde_dist goals centroids =
     map (\<lambda>goal. map (\<lambda>k. get_dis_p2p goal (centroids ! k)) [0..<6]) goals"

fun row_min :: "real list \<Rightarrow> real" where
  "row_min [] = 0"
| "row_min (d # ds) = fold min ds d"

text \<open>Line 610: the indices of the goals within \<open>R\<close> of centroid \<open>k\<close>. Line 611: their
  weights.\<close>

definition fde_idx :: "real list list \<Rightarrow> nat \<Rightarrow> real \<Rightarrow> nat list" where
  "fde_idx dist_m k R = filter (\<lambda>i. dist_m ! i ! k \<le> R) [0..<length dist_m]"

definition fde_weights :: "real list \<Rightarrow> real list list \<Rightarrow> nat \<Rightarrow> nat list \<Rightarrow> real list" where
  "fde_weights scores dist_m k idx =
     map (\<lambda>i. scores ! i * (row_min (dist_m ! i) + 1 / 10 ^ 7) / ((dist_m ! i ! k)\<^sup>2 + 1 / 10 ^ 7)) idx"

text \<open>Line 612: the new centroid \<open>k\<close>. \<open>scores[idx]\<close> raises when \<open>scores\<close> is shorter than
  an index of \<open>idx\<close>. The quotient of the weighted sum of the goals and the sum of the
  weights is a NumPy division: when the sum of the weights is zero nothing is raised and
  the centroid is \<open>nan\<close> or \<open>inf\<close>, which the model reports as \<open>NotFinite\<close>.\<close>

definition fde_centroid :: "real list \<Rightarrow> point list \<Rightarrow> real list list \<Rightarrow> real \<Rightarrow> nat \<Rightarrow> error + point" where
  "fde_centroid scores goals dist_m R k =
     (let idx = fde_idx dist_m k R
      in if list_ex (\<lambda>i. length scores \<le> i) idx then Inl IndexError
         else (let weights = fde_weights scores dist_m k idx;
                   total = sum_list weights
               in if total = 0 then Inl NotFinite
                  else Inr (sum_list (map2 (\<lambda>i w. fst (goals ! i) * w) idx weights) / total,
                            sum_list (map2 (\<lambda>i w. snd (goals ! i) * w) idx weights) / total)))"

text \<open>One round of the outer loop, lines 600-612. The distances are taken from the
  centroids the round starts with. Fewer than six centroids end the round with an
  \<open>IndexError\<close>, at line 604 or at the assignment of line 612. The model stops at the
  first centroid that is not finite, where NumPy would carry the \<open>nan\<close> on.\<close>

definition fde_round :: "real list \<Rightarrow> point list \<Rightarrow> real \<Rightarrow> point list \<Rightarrow> error + point list" where
  "fde_round scores goals R centroids =
     (if length centroids < 6 then Inl IndexError
      else (case collect (map (fde_centroid scores goals (fde_dist goals centroids) R) [0..<6]) of
              Inl e \<Rightarrow> Inl e
            | Inr cs \<Rightarrow> Inr (cs @ drop 6 centroids)))"

text \<open>\<open>get_optimal_targets_home_FDE(scores, goals, centroids, L=4, R=3.0)\<close>, lines
  598-614.\<close>

fun get_optimal_targets_home_FDE ::
  "real list \<Rightarrow> point list \<Rightarrow> point list \<Rightarrow> nat \<Rightarrow> real \<Rightarrow> error + point list" where
  "get_optimal_targets_home_FDE scores goals centroids 0 R = Inr centroids"
| "get_optimal_targets_home_FDE scores goals centroids (Suc L) R =
     (case fde_round scores goals R centroids of
        Inl e \<Rightarrow> Inl e
      | Inr centroids' \<Rightarrow> get_optimal_targets_home_FDE scores goals centroids' L R)"

section \<open>Properties\<close>

subsection \<open>Subscripts\<close>

lemma py_index_last: "xs \<noteq> [] \<Longrightarrow> py_index xs (- 1) = Inr (last xs)"
  by (cases xs rule: rev_cases) (auto simp: py_index_def nth_append)

lemma py_index_first: "xs \<noteq> [] \<Longrightarrow> py_index xs 0 = Inr (hd xs)"
  by (cases xs) (auto simp: py_index_def)

lemma py_index_nat: "i < length xs \<Longrightarrow> py_index xs (int i) = Inr (xs ! i)"
  by (simp add: py_index_def)

lemma py_index_in_range:
  "- int (length xs) \<le> j \<Longrightarrow> j < int (length xs) \<Longrightarrow> \<exists>e. py_index xs j = Inr e"
  by (simp add: py_index_def)

lemma py_index_update_same:
  "0 \<le> t \<Longrightarrow> t < int (length xs) \<Longrightarrow> py_index (xs[nat t := v]) t = Inr v"
  by (simp add: py_index_def)

lemma py_index_update_other:
  "0 \<le> t \<Longrightarrow> j \<noteq> t \<Longrightarrow> j + int (length xs) \<noteq> t \<Longrightarrow> py_index (xs[nat t := v]) j = py_index xs j"
  by (auto simp: py_index_def nth_list_update)

text \<open>Distances between points on a common horizontal or vertical line.\<close>

lemma get_dis_p2p_same_y: "get_dis_p2p (x1, y) (x2, y) = \<bar>x1 - x2\<bar>"
  by (simp add: get_dis_p2p_def)

lemma get_dis_p2p_same_x: "get_dis_p2p (x, y1) (x, y2) = \<bar>y1 - y2\<bar>"
  by (simp add: get_dis_p2p_def)

subsection \<open>Unit vectors\<close>

lemma get_unit_vector_error_iff:
  "get_unit_vector a b = Inl e \<longleftrightarrow> e = ZeroDivisionError \<and> a = b"
  by (cases a; cases b) (auto simp: get_unit_vector_def Let_def)

text \<open>
  Claim C9. \<open>get_unit_vector a b\<close> fails, with \<open>ZeroDivisionError\<close>, exactly when
  \<open>a = b\<close>. For distinct points it returns a vector \<open>u\<close> of length one that points from
  \<open>a\<close> to \<open>b\<close>: \<open>b - a\<close> is \<open>u\<close> scaled by the positive distance between the points.
\<close>

theorem get_unit_vector_normalized:
  "(get_unit_vector a b = Inl ZeroDivisionError \<longleftrightarrow> a = b) \<and>
   (a \<noteq> b \<longrightarrow>
      (\<exists>u. get_unit_vector a b = Inr u \<and> (fst u)\<^sup>2 + (snd u)\<^sup>2 = 1 \<and>
           0 < get_dis_p2p b a \<and>
           fst b - fst a = get_dis_p2p b a * fst u \<and>
           snd b - snd a = get_dis_p2p b a * snd u))"
proof (intro conjI impI)
  show "get_unit_vector a b = Inl ZeroDivisionError \<longleftrightarrow> a = b"
    by (simp add: get_unit_vector_error_iff)
next
  assume ne: "a \<noteq> b"
  define dx where "dx = fst b - fst a"
  define dy where "dy = snd b - snd a"
  define l where "l = sqrt (dx\<^sup>2 + dy\<^sup>2)"
  from ne have nz: "dx \<noteq> 0 \<or> dy \<noteq> 0"
    by (cases a; cases b) (auto simp: dx_def dy_def)
  then have pos: "0 < dx\<^sup>2 + dy\<^sup>2"
    by (metis sum_power2_gt_zero_iff)
  then have lpos: "0 < l" by (simp add: l_def)
  have lsq: "l\<^sup>2 = dx\<^sup>2 + dy\<^sup>2"
    using pos by (simp add: l_def)
  have dis: "get_dis_p2p b a = l"
    by (simp add: get_dis_p2p_def l_def dx_def dy_def)
  have "sqrt ((fst b - fst a)\<^sup>2 + (snd b - snd a)\<^sup>2) \<noteq> 0"
    using lpos unfolding l_def dx_def dy_def by linarith
  then have val: "get_unit_vector a b = Inr (dx * (1 / l), dy * (1 / l))"
    unfolding get_unit_vector_def Let_def dx_def dy_def l_def by simp
  have unit: "(dx * (1 / l))\<^sup>2 + (dy * (1 / l))\<^sup>2 = 1"
  proof -
    have "(dx * (1 / l))\<^sup>2 + (dy * (1 / l))\<^sup>2 = (dx\<^sup>2 + dy\<^sup>2) / l\<^sup>2"
      by (simp add: power_divide add_divide_distrib)
    also have "\<dots> = 1" using nz by (auto simp: lsq)
    finally show ?thesis .
  qed
  show "\<exists>u. get_unit_vector a b = Inr u \<and> (fst u)\<^sup>2 + (snd u)\<^sup>2 = 1 \<and>
           0 < get_dis_p2p b a \<and>
           fst b - fst a = get_dis_p2p b a * fst u \<and>
           snd b - snd a = get_dis_p2p b a * snd u"
    using val unit lpos dis by (simp add: dx_def dy_def)
qed

theorem get_unit_vector_normalized_witness:
  "(get_unit_vector (0, 0) (0, 0) = Inl ZeroDivisionError) \<and>
   get_unit_vector (0, 0) (3, 0) = Inr (1, 0)"
  using get_unit_vector_normalized [of "(0, 0)" "(0, 0)"]
        get_unit_vector_normalized [of "(0, 0)" "(3, 0)"]
  by (auto simp: get_dis_p2p_def)

subsection \<open>Goal lattice: deduplication\<close>

lemma round_half_even_of_int: "round_half_even (real_of_int k) = k"
  by (simp add: round_half_even_def)

lemma round_half_even_zero: "round_half_even 0 = 0"
  using round_half_even_of_int [of 0] by simp

lemma py_round_int_idempotent:
  "py_round x (PyInt d) = Inr r \<Longrightarrow> py_round r (PyInt d) = Inr r"
proof -
  assume "py_round x (PyInt d) = Inr r"
  then have r: "r = real_of_int (round_half_even (x * 10 powi d)) / 10 powi d" by simp
  have "(10 :: real) powi d \<noteq> 0" by simp
  then have "r * 10 powi d = real_of_int (round_half_even (x * 10 powi d))"
    unfolding r by simp
  then have "round_half_even (r * 10 powi d) = round_half_even (x * 10 powi d)"
    by (simp add: round_half_even_of_int)
  then show ?thesis by (simp add: r [symmetric])
qed

lemma get_hash_point_int: "get_hash_point (PyInt d) pt = Inr (hash_key d pt)"
  by (simp add: get_hash_point_def hash_key_def)

lemma hash_key_idempotent: "hash_key d (hash_key d pt) = hash_key d pt"
proof -
  have a: "py_round (fst pt) (PyInt d) = Inr (fst (hash_key d pt))"
    and b: "py_round (snd pt) (PyInt d) = Inr (snd (hash_key d pt))"
    by (simp_all add: hash_key_def)
  from py_round_int_idempotent [OF a] py_round_int_idempotent [OF b]
  show ?thesis by (simp add: hash_key_def)
qed

lemma remove_repeated_loop_int:
  "remove_repeated_loop (PyInt d) points grid = Inr (fold grid_insert (map (hash_key d) points) grid)"
  by (induction points arbitrary: grid) (simp_all add: get_hash_point_int)

lemma fold_grid_insert_set: "set (fold grid_insert ks grid) = set grid \<union> set ks"
  by (induction ks arbitrary: grid) (auto simp: grid_insert_def)

lemma fold_grid_insert_distinct: "distinct grid \<Longrightarrow> distinct (fold grid_insert ks grid)"
  by (induction ks arbitrary: grid) (auto simp: grid_insert_def)

lemma fold_grid_insert_fresh: "distinct (grid @ ks) \<Longrightarrow> fold grid_insert ks grid = grid @ ks"
  by (induction ks arbitrary: grid) (auto simp: grid_insert_def)

lemma get_points_remove_repeated_keys:
  "\<exists>qs. get_points_remove_repeated points (PyInt d) = Inr qs \<and> distinct qs \<and>
        set qs = hash_key d ` set points"
  by (simp add: get_points_remove_repeated_def remove_repeated_loop_int fold_grid_insert_set
        fold_grid_insert_distinct)

lemma get_points_remove_repeated_idempotent:
  assumes "get_points_remove_repeated points (PyInt d) = Inr qs"
  shows "get_points_remove_repeated qs (PyInt d) = Inr qs"
proof -
  from assms have qs: "qs = fold grid_insert (map (hash_key d) points) []"
    by (simp add: get_points_remove_repeated_def remove_repeated_loop_int)
  have "set qs = hash_key d ` set points"
    by (simp add: qs fold_grid_insert_set)
  then have "map (hash_key d) qs = qs"
    by (intro map_idI) (auto simp: hash_key_idempotent)
  moreover have "distinct qs" by (simp add: qs fold_grid_insert_distinct)
  ultimately have "fold grid_insert (map (hash_key d) qs) [] = qs"
    using fold_grid_insert_fresh [of "[]" qs] by simp
  then show ?thesis
    by (simp add: get_points_remove_repeated_def remove_repeated_loop_int)
qed

lemma get_points_remove_repeated_float_decimal:
  "get_points_remove_repeated (pt # points) (PyFloat d) = Inl TypeError"
  by (simp add: get_points_remove_repeated_def get_hash_point_def)

lemma lattice_points_origin:
  "lattice_points [(0, 0)] 2 1 [] = Some
     [(- 2, - 2), (- 2, - 1), (- 2, 0), (- 2, 1), (- 2, 2),
      (- 1, - 2), (- 1, - 1), (- 1, 0), (- 1, 1), (- 1, 2),
      (0, - 2), (0, - 1), (0, 0), (0, 1), (0, 2),
      (1, - 2), (1, - 1), (1, 0), (1, 1), (1, 2),
      (2, - 2), (2, - 1), (2, 0), (2, 1), (2, 2)]"
  by (simp add: round_half_even_zero lattice_rows.simps lattice_row.simps grid_insert_def)

text \<open>
  Claim C7 holds of \<open>get_points_remove_repeated\<close> called with an integer precision: the
  result holds each rounded pair once (\<open>get_points_remove_repeated_keys\<close>) and
  deduplicating it again returns it unchanged (\<open>get_points_remove_repeated_idempotent\<close>).
  The dense generator does not get that far with its default parameters. It hands its
  step \<open>density = 1.0\<close>, a float, to \<open>get_points_remove_repeated\<close> as the number of
  decimals, and \<open>round\<close> raises \<open>TypeError\<close> on the first lattice point: for the single
  input point \<open>(0, 0)\<close>, distance 2 and step 1.0 the call ends with that error instead
  of a lattice.
\<close>

theorem get_neighbour_points_new_default_fails:
  "get_neighbour_points_new [(0, 0)] 2 (PyFloat 1) = Some (Inl TypeError)"
  by (simp add: get_neighbour_points_new_def lattice_points_origin
        get_points_remove_repeated_float_decimal del: lattice_points.simps)

lemma get_neighbour_points_new_int_density:
  "get_neighbour_points_new [(0, 0)] 2 (PyInt 1) = Some (Inr
     [(- 2, - 2), (- 2, - 1), (- 2, 0), (- 2, 1), (- 2, 2),
      (- 1, - 2), (- 1, - 1), (- 1, 0), (- 1, 1), (- 1, 2),
      (0, - 2), (0, - 1), (0, 0), (0, 1), (0, 2),
      (1, - 2), (1, - 1), (1, 0), (1, 1), (1, 2),
      (2, - 2), (2, - 1), (2, 0), (2, 1), (2, 2)])"
  by (simp add: get_neighbour_points_new_def lattice_points_origin get_points_remove_repeated_def
        get_hash_point_def grid_insert_def
        round_half_even_of_int [of "- 20", simplified] round_half_even_of_int [of "- 10", simplified]
        round_half_even_of_int [of 0, simplified] round_half_even_of_int [of 10, simplified]
        round_half_even_of_int [of 20, simplified]
        del: lattice_points.simps)

subsection \<open>Reference path: the densifying loop\<close>

lemma densify_pass_length: "xs \<noteq> [] \<Longrightarrow> length (densify_pass xs) = 2 * length xs - 1"
  by (induction xs rule: densify_pass.induct) auto

lemma densify_returns_not_single:
  assumes "densify xs = Some y"
  shows "length xs \<noteq> 1"
proof (rule densify.raw_induct [where P = "\<lambda>x y. length x \<noteq> 1" and reference_path = xs and y = y])
  fix d :: "point list \<Rightarrow> (error + point list) option" and rp r
  assume IH: "\<And>x y. d x = Some y \<Longrightarrow> length x \<noteq> 1"
  assume eq: "(if length rp < 9
        then if rp = [] then Some (Inl IndexError) else d (densify_pass rp)
        else Some (Inr rp)) = Some r"
  show "length rp \<noteq> 1"
  proof
    assume "length rp = 1"
    then obtain p where p: "rp = [p]"
      by (cases rp) auto
    with eq have "d [p] = Some r" by simp
    from IH [OF this] show False by simp
  qed
next
  show "densify xs = Some y" by (rule assms)
qed

lemma densify_single: "densify [p] = None"
proof (cases "densify [p]")
  case None
  then show ?thesis .
next
  case (Some y)
  from densify_returns_not_single [OF this] show ?thesis by simp
qed

lemma densify_empty: "densify [] = Some (Inl IndexError)"
  by (simp add: densify.simps)

lemma densify_total:
  "2 \<le> length xs \<Longrightarrow> \<exists>ys. densify xs = Some (Inr ys) \<and> 9 \<le> length ys"
proof (induction "9 - length xs" arbitrary: xs rule: less_induct)
  case less
  show ?case
  proof (cases "length xs < 9")
    case False
    then show ?thesis by (subst densify.simps) simp
  next
    case True
    from less.prems have ne: "xs \<noteq> []" by auto
    have len: "length (densify_pass xs) = 2 * length xs - 1"
      using ne by (rule densify_pass_length)
    have "9 - length (densify_pass xs) < 9 - length xs" "2 \<le> length (densify_pass xs)"
      using len True less.prems by simp_all
    from less.hyps [OF this] obtain ys where
      "densify (densify_pass xs) = Some (Inr ys)" "9 \<le> length ys" by blast
    moreover have "densify xs = densify (densify_pass xs)"
      using True ne by (subst densify.simps) simp
    ultimately show ?thesis by simp
  qed
qed

text \<open>
  Claim C8 asks that every reference polyline shorter than two points ends the call with
  an error. The empty polyline does (\<open>construct_reference_path_empty\<close> below). A
  polyline of one point does not: the densifying pass returns it unchanged, its length
  stays below 9, and the loop never ends, so the call neither returns nor raises.
\<close>

theorem construct_reference_path_single_point_diverges:
  "construct_reference_path lbls [p] point_label future_frame_num = None"
  by (simp add: construct_reference_path_def densify_single)

lemma construct_reference_path_empty:
  "construct_reference_path lbls [] point_label future_frame_num = Some (Inl IndexError)"
  by (simp add: construct_reference_path_def densify_empty)

subsection \<open>Reference path: the radius\<close>

lemma filter_radius_floor:
  "filter_radius lbls rp idx future_frame_num = Inr R \<Longrightarrow>
     3 \<le> R \<and> (get_dis_p2p (last lbls) (hd lbls) \<le> 3 \<longrightarrow> R = 3)"
proof -
  assume r: "filter_radius lbls rp idx future_frame_num = Inr R"
  then have ne: "lbls \<noteq> []"
    by (auto simp: filter_radius_def py_index_def split: sum.splits)
  from r obtain h where "py_index lbls ((- future_frame_num) div 2) = Inr h"
    by (auto simp: filter_radius_def split: sum.splits)
  with r ne show ?thesis
    by (auto simp: filter_radius_def py_index_last py_index_first)
qed

lemma densify_two_points:
  "densify [(0, 0), (40, 0)] =
     Some (Inr [(0, 0), (5, 0), (10, 0), (15, 0), (20, 0), (25, 0), (30, 0), (35, 0), (40, 0)])"
  by (simp add: densify.simps pt_half_def pt_add_def)

text \<open>
  Claim C2 bounds the radius by 15, as the comment of line 215 does (\<open>3 <= R <= 15\<close>).
  The code takes the larger of 15 and the distance to the label half a horizon back where
  the claim takes the smaller. For the horizon 4, the labels
  \<open>(0,0), (1,0), (2,0), (20,0)\<close>, the reference path from \<open>(0,0)\<close> to \<open>(40,0)\<close> and the
  target \<open>(20,0)\<close>, that distance is 18, the other two bounds are 20, and the radius is
  18. The floor holds: \<open>filter_radius_floor\<close> above.
\<close>

theorem construct_reference_path_radius_above_15:
  "construct_reference_path_radius [(0, 0), (1, 0), (2, 0), (20, 0)] [(0, 0), (40, 0)] (20, 0) 4
     = Some (Inr 18)"
  by (simp add: construct_reference_path_radius_def densify_two_points before_splice_def
        recenter_def filter_radius_def py_index_def get_dis_p2p_same_y np_argmin_def
        get_dis_batch_def pt_sub_def Let_def)

subsection \<open>Reference path: the length of the result\<close>

lemma argmin_scan_bound:
  "best_i < i \<Longrightarrow> argmin_scan xs i best_i best < i + length xs"
proof (induction xs arbitrary: i best_i best)
  case Nil
  then show ?case by simp
next
  case (Cons x xs)
  have "argmin_scan xs (Suc i) i x < Suc i + length xs"
    by (rule Cons.IH) simp
  moreover have "argmin_scan xs (Suc i) best_i best < Suc i + length xs"
    by (rule Cons.IH) (use Cons.prems in simp)
  ultimately show ?case by simp
qed

lemma np_argmin_in_range:
  "xs \<noteq> [] \<Longrightarrow> \<exists>i. np_argmin xs = Inr i \<and> i < length xs"
proof (cases xs)
  case Nil
  assume "xs \<noteq> []"
  with Nil show ?thesis by simp
next
  case (Cons x rest)
  have "argmin_scan rest 1 0 x < 1 + length rest"
    by (rule argmin_scan_bound) simp
  with Cons show ?thesis by (simp add: np_argmin_def)
qed

lemma get_unit_vector_far:
  "0 < np_norm (pt_sub a b) \<Longrightarrow> \<exists>u. get_unit_vector a b = Inr u"
proof -
  assume "0 < np_norm (pt_sub a b)"
  then have "a \<noteq> b" by (auto simp: np_norm_def pt_sub_def)
  then have "\<And>e. get_unit_vector a b \<noteq> Inl e"
    by (simp add: get_unit_vector_error_iff)
  then show ?thesis by (cases "get_unit_vector a b") auto
qed

lemma get_unit_vector_same_x:
  "get_unit_vector (x, y1) (x, y2) =
     (if y2 = y1 then Inl ZeroDivisionError else Inr (0, (y2 - y1) / \<bar>y2 - y1\<bar>))"
  by (simp add: get_unit_vector_def Let_def)

lemma get_unit_vector_same_y:
  "get_unit_vector (x1, y) (x2, y) =
     (if x2 = x1 then Inl ZeroDivisionError else Inr ((x2 - x1) / \<bar>x2 - x1\<bar>, 0))"
  by (simp add: get_unit_vector_def Let_def)

lemma np_norm_on_x_axis: "np_norm (x, 0) = \<bar>x\<bar>"
  by (simp add: np_norm_def)

lemma np_norm_on_y_axis: "np_norm (0, y) = \<bar>y\<bar>"
  by (simp add: np_norm_def)

lemma recenter_total:
  assumes "xs \<noteq> []"
  shows "\<exists>sh idx. recenter xs pl = Inr (sh, idx) \<and> idx < length sh \<and> sh ! idx = pl"
proof -
  from assms have "get_dis_batch xs pl \<noteq> []" by (simp add: get_dis_batch_def)
  from np_argmin_in_range [OF this] obtain idx where
    idx: "np_argmin (get_dis_batch xs pl) = Inr idx" "idx < length xs"
    by (auto simp: get_dis_batch_def)
  define sh where "sh = map (\<lambda>p. pt_sub p (pt_sub (xs ! idx) pl)) xs"
  have "recenter xs pl = Inr (sh, idx)"
    using idx(1) by (simp add: recenter_def sh_def)
  moreover have "idx < length sh" using idx(2) by (simp add: sh_def)
  moreover have "sh ! idx = pl" using idx(2) by (simp add: sh_def pt_sub_def)
  ultimately show ?thesis by blast
qed

lemma filter_radius_total:
  assumes "lbls \<noteq> []"
      and "- int (length lbls) \<le> (- future_frame_num) div 2"
      and "(- future_frame_num) div 2 < int (length lbls)"
  shows "\<exists>R. filter_radius lbls rp idx future_frame_num = Inr R \<and> 3 \<le> R"
proof -
  from py_index_in_range [OF assms(2,3)] obtain h where
    "py_index lbls ((- future_frame_num) div 2) = Inr h" ..
  then show ?thesis
    using assms(1) by (simp add: filter_radius_def py_index_last py_index_first)
qed

lemma py_slice_from_tail_nonempty:
  "xs \<noteq> [] \<Longrightarrow> 0 \<le> k \<Longrightarrow> py_slice_from xs (- 1 - k) \<noteq> []"
  by (cases xs) (auto simp: py_slice_from_def max_def)

lemma before_splice_total:
  assumes "dense \<noteq> []" and "lbls \<noteq> []"
      and "- int (length lbls) \<le> (- future_frame_num) div 2"
      and "(- future_frame_num) div 2 < int (length lbls)"
  shows "\<exists>v. before_splice lbls dense pl future_frame_num = Inr v \<and>
             filtered_path v \<noteq> [] \<and> traj_segment v \<noteq> []"
proof -
  from recenter_total [OF assms(1)] obtain sh idx where
    sh: "recenter dense pl = Inr (sh, idx)" "idx < length sh" "sh ! idx = pl" by blast
  from filter_radius_total [OF assms(2,3,4)] obtain R where
    R: "filter_radius lbls sh idx future_frame_num = Inr R" "3 \<le> R" by blast
  define fp where "fp = filter (\<lambda>p. get_dis_p2p p pl \<le> R) sh"
  have "pl \<in> set sh" using sh(2,3) nth_mem by metis
  moreover have "get_dis_p2p pl pl \<le> R" using R(2) by (simp add: get_dis_p2p_def)
  ultimately have "pl \<in> set fp" by (simp add: fp_def)
  then have ne: "fp \<noteq> []" by auto
  then have "get_dis_batch fp pl \<noteq> []" by (simp add: get_dis_batch_def)
  from np_argmin_in_range [OF this] obtain j where
    j: "np_argmin (get_dis_batch fp pl) = Inr j" by blast
  have seg: "py_slice_from lbls (- 1 - max 0 (int (traj_scan lbls (fp ! j) R 0) - 1)) \<noteq> []"
    using assms(2) by (rule py_slice_from_tail_nonempty) simp
  show ?thesis
    using sh(1) R(1) ne j seg by (simp add: before_splice_def fp_def [symmetric] Let_def)
qed

lemma splice_nonempty:
  assumes "filtered_path v \<noteq> []" and "traj_segment v \<noteq> []"
  shows "\<exists>out. splice_trajectory v = Inr out \<and> out \<noteq> []"
proof -
  define fp where "fp = filtered_path v"
  define c where "c = fp ! closest_idx v"
  define sd where "sd = np_norm (pt_sub c (hd fp))"
  define ed where "ed = np_norm (pt_sub c (last fp))"
  have us: "\<exists>u. get_unit_vector c (hd fp) = Inr u" if "\<not> sd \<le> 1 / 10 ^ 7"
    using that by (intro get_unit_vector_far) (simp add: sd_def)
  have ue: "\<exists>u. get_unit_vector c (last fp) = Inr u" if "\<not> ed \<le> 1 / 10 ^ 7"
    using that by (intro get_unit_vector_far) (simp add: ed_def)
  show ?thesis
  proof (cases "traj_direction v")
    case None
    with assms(1) show ?thesis by (simp add: splice_trajectory_def Let_def)
  next
    case (Some d)
    consider (both) "sd \<le> 1 / 10 ^ 7" "ed \<le> 1 / 10 ^ 7"
      | (start) "sd \<le> 1 / 10 ^ 7" "\<not> ed \<le> 1 / 10 ^ 7"
      | (at_end) "\<not> sd \<le> 1 / 10 ^ 7" "ed \<le> 1 / 10 ^ 7"
      | (inner) "\<not> sd \<le> 1 / 10 ^ 7" "\<not> ed \<le> 1 / 10 ^ 7"
      by blast
    then show ?thesis
    proof cases
      case both
      with Some assms(1) show ?thesis
        by (simp add: splice_trajectory_def Let_def sd_def ed_def c_def fp_def)
    next
      case start
      from ue [OF start(2)] obtain u where "get_unit_vector c (last fp) = Inr u" ..
      with Some start assms show ?thesis
        by (simp add: splice_trajectory_def Let_def sd_def ed_def c_def fp_def)
    next
      case at_end
      from us [OF at_end(1)] obtain u where "get_unit_vector c (hd fp) = Inr u" ..
      with Some at_end assms show ?thesis
        by (simp add: splice_trajectory_def Let_def sd_def ed_def c_def fp_def)
    next
      case inner
      from us [OF inner(1)] obtain u where "get_unit_vector c (hd fp) = Inr u" ..
      moreover from ue [OF inner(2)] obtain w where "get_unit_vector c (last fp) = Inr w" ..
      ultimately show ?thesis
        using Some inner assms by (simp add: splice_trajectory_def Let_def sd_def ed_def c_def fp_def)
    qed
  qed
qed

lemma densify_sparse:
  "densify [(0, 0), (100, 0), (200, 0)] =
     Some (Inr [(0, 0), (25, 0), (50, 0), (75, 0), (100, 0), (125, 0), (150, 0), (175, 0), (200, 0)])"
  by (simp add: densify.simps pt_half_def pt_add_def)

lemma before_splice_sparse:
  "before_splice [(- 1, 0), (0, 0)]
     [(0, 0), (25, 0), (50, 0), (75, 0), (100, 0), (125, 0), (150, 0), (175, 0), (200, 0)] (0, 0) 2 =
   Inr \<lparr>filtered_path = [(0, 0)], closest_idx = 0, radius = 3,
        traj_segment = [(- 1, 0), (0, 0)], traj_direction = None\<rparr>"
  by (simp add: before_splice_def recenter_def filter_radius_def np_argmin_def get_dis_batch_def
        py_index_def py_slice_from_def traj_direction_of_def traj_scan.simps pt_sub_def Let_def
        get_dis_p2p_same_y get_unit_vector_same_y)

lemma densify_bent:
  "densify [(0, 4), (0, 3), (0, 2), (0, 1), (0, 0), (1, 0), (2, 0), (3, 0), (4, 0)] =
     Some (Inr [(0, 4), (0, 3), (0, 2), (0, 1), (0, 0), (1, 0), (2, 0), (3, 0), (4, 0)])"
  by (simp add: densify.simps)

lemma before_splice_bent:
  "before_splice [(- 5, 0), (- 1, 0), (0, 0)]
     [(0, 4), (0, 3), (0, 2), (0, 1), (0, 0), (1, 0), (2, 0), (3, 0), (4, 0)] (0, 0) 4 =
   Inr \<lparr>filtered_path = [(0, 4), (0, 3), (0, 2), (0, 1), (0, 0), (1, 0), (2, 0), (3, 0), (4, 0)],
        closest_idx = 4, radius = 4,
        traj_segment = [(- 1, 0), (0, 0)], traj_direction = Some (- 1, 0)\<rparr>"
  by (simp add: before_splice_def recenter_def filter_radius_def np_argmin_def get_dis_batch_def
        py_index_def py_slice_from_def traj_direction_of_def traj_scan.simps pt_sub_def Let_def
        get_dis_p2p_same_y get_dis_p2p_same_x get_unit_vector_same_y)

lemma splice_bent:
  "splice_trajectory \<lparr>filtered_path = [(0, 4), (0, 3), (0, 2), (0, 1), (0, 0), (1, 0), (2, 0), (3, 0), (4, 0)],
        closest_idx = 4, radius = 4,
        traj_segment = [(- 1, 0), (0, 0)], traj_direction = Some (- 1, 0)\<rparr> =
   Inr [(- 1, 0), (0, 0), (0, 0), (1, 0), (2, 0), (3, 0), (4, 0)]"
  by (simp add: splice_trajectory_def pt_sub_def np_norm_on_x_axis np_norm_on_y_axis np_dot_def Let_def
        get_unit_vector_same_y get_unit_vector_same_x)

text \<open>
  Claim C3, as the code has it. For a reference polyline of at least two points and a
  trajectory that holds its last label and the label half a horizon back,
  \<open>construct_reference_path\<close> returns a polyline, and the polyline has at least one
  point.
\<close>

theorem construct_reference_path_nonempty:
  assumes "2 \<le> length reference_path" and "lbls \<noteq> []"
      and "- int (length lbls) \<le> (- future_frame_num) div 2"
      and "(- future_frame_num) div 2 < int (length lbls)"
  shows "\<exists>out. construct_reference_path lbls reference_path point_label future_frame_num
             = Some (Inr out) \<and> 1 \<le> length out"
proof -
  from densify_total [OF assms(1)] obtain dense where
    dense: "densify reference_path = Some (Inr dense)" "9 \<le> length dense" by blast
  from dense(2) have "dense \<noteq> []" by auto
  from before_splice_total [OF this assms(2,3,4)] obtain v where
    v: "before_splice lbls dense point_label future_frame_num = Inr v"
       "filtered_path v \<noteq> []" "traj_segment v \<noteq> []" by blast
  from splice_nonempty [OF v(2,3)] obtain out where
    out: "splice_trajectory v = Inr out" "out \<noteq> []" by blast
  from out(2) have "1 \<le> length out" by (cases out) simp_all
  with dense(1) v(1) out(1) show ?thesis
    by (simp add: construct_reference_path_def)
qed

theorem construct_reference_path_nonempty_witness:
  "construct_reference_path [(- 5, 0), (- 1, 0), (0, 0)]
     [(0, 4), (0, 3), (0, 2), (0, 1), (0, 0), (1, 0), (2, 0), (3, 0), (4, 0)] (0, 0) 4
     = Some (Inr [(- 1, 0), (0, 0), (0, 0), (1, 0), (2, 0), (3, 0), (4, 0)]) \<and>
   1 \<le> length [(- 1, 0), (0, 0), (0, 0), (1, 0), (2, 0), (3, 0), (4 :: real, 0 :: real)]"
  using construct_reference_path_nonempty
          [of "[(0, 4), (0, 3), (0, 2), (0, 1), (0, 0), (1, 0), (2, 0), (3, 0), (4, 0)]"
              "[(- 5, 0), (- 1, 0), (0, 0)]" 4 "(0, 0)"]
  by (simp add: construct_reference_path_def densify_bent before_splice_bent splice_bent)

text \<open>Claim C3 as stated fails. A slow trajectory, one unit long, gives the radius 3;
  the densified reference path has a point every 25 units, so only the point at the
  target passes the filter; the two labels the direction is taken from coincide, so
  nothing is spliced in, and the result is a polyline of one point.\<close>

theorem construct_reference_path_short_output:
  "construct_reference_path [(- 1, 0), (0, 0)] [(0, 0), (100, 0), (200, 0)] (0, 0) 2
     = Some (Inr [(0, 0)]) \<and>
   \<not> 3 \<le> length [(0 :: real, 0 :: real)]"
  by (simp add: construct_reference_path_def densify_sparse before_splice_sparse
        splice_trajectory_def)

subsection \<open>Reference path: the splice at an interior point\<close>

text \<open>
  Claim C4, as the code has it. When the closest point is farther than \<open>1e-7\<close> from both
  ends of the filtered path, both directions exist, and the path is replaced exactly when
  there is a trajectory direction, the product of its dot products with the start and end
  directions is at most zero, and at least one of the two dot products is above \<open>1e-7\<close> in
  absolute value. Then the part after the closest point is replaced by the reversed
  trajectory segment when the start dot product is the smaller one, and the part before
  it by the trajectory segment otherwise. In every other case the path is returned as it
  is.
\<close>

theorem splice_interior:
  assumes "1 / 10 ^ 7 < np_norm (pt_sub (filtered_path v ! closest_idx v) (hd (filtered_path v)))"
      and "1 / 10 ^ 7 < np_norm (pt_sub (filtered_path v ! closest_idx v) (last (filtered_path v)))"
  shows "\<exists>start_direction end_direction.
     get_unit_vector (filtered_path v ! closest_idx v) (hd (filtered_path v)) = Inr start_direction \<and>
     get_unit_vector (filtered_path v ! closest_idx v) (last (filtered_path v)) = Inr end_direction \<and>
     splice_trajectory v = Inr
       (case traj_direction v of
          None \<Rightarrow> filtered_path v
        | Some d \<Rightarrow>
            if np_dot d start_direction * np_dot d end_direction \<le> 0 \<and>
               (1 / 10 ^ 7 < \<bar>np_dot d start_direction\<bar> \<or> 1 / 10 ^ 7 < \<bar>np_dot d end_direction\<bar>)
            then (if np_dot d start_direction < np_dot d end_direction
                  then take (closest_idx v) (filtered_path v) @ rev (traj_segment v)
                  else traj_segment v @ drop (closest_idx v) (filtered_path v))
            else filtered_path v)"
proof -
  from assms(1) have "0 < np_norm (pt_sub (filtered_path v ! closest_idx v) (hd (filtered_path v)))"
    by (rule less_trans [rotated]) simp
  from get_unit_vector_far [OF this] obtain sd where
    sd: "get_unit_vector (filtered_path v ! closest_idx v) (hd (filtered_path v)) = Inr sd" ..
  from assms(2) have "0 < np_norm (pt_sub (filtered_path v ! closest_idx v) (last (filtered_path v)))"
    by (rule less_trans [rotated]) simp
  from get_unit_vector_far [OF this] obtain ed where
    ed: "get_unit_vector (filtered_path v ! closest_idx v) (last (filtered_path v)) = Inr ed" ..
  have "splice_trajectory v = Inr
       (case traj_direction v of
          None \<Rightarrow> filtered_path v
        | Some d \<Rightarrow>
            if np_dot d sd * np_dot d ed \<le> 0 \<and>
               (1 / 10 ^ 7 < \<bar>np_dot d sd\<bar> \<or> 1 / 10 ^ 7 < \<bar>np_dot d ed\<bar>)
            then (if np_dot d sd < np_dot d ed
                  then take (closest_idx v) (filtered_path v) @ rev (traj_segment v)
                  else traj_segment v @ drop (closest_idx v) (filtered_path v))
            else filtered_path v)"
    using assms sd ed by (auto simp: splice_trajectory_def Let_def not_le split: option.splits)
  with sd ed show ?thesis by blast
qed

theorem splice_interior_witness:
  "splice_trajectory
     \<lparr>filtered_path = [(0, 4), (0, 3), (0, 2), (0, 1), (0, 0), (1, 0), (2, 0), (3, 0), (4, 0)],
        closest_idx = 4, radius = 4,
        traj_segment = [(- 1, 0), (0, 0)], traj_direction = Some (- 1, 0)\<rparr> =
   Inr [(- 1, 0), (0, 0), (0, 0), (1, 0), (2, 0), (3, 0), (4, 0)]"
  using splice_interior [of
     "\<lparr>filtered_path = [(0, 4), (0, 3), (0, 2), (0, 1), (0, 0), (1, 0), (2, 0), (3, 0), (4, 0)],
        closest_idx = 4, radius = 4,
        traj_segment = [(- 1, 0), (0, 0)], traj_direction = Some (- 1, 0)\<rparr>"]
  by (simp add: pt_sub_def np_norm_on_x_axis np_norm_on_y_axis np_dot_def
        get_unit_vector_same_y get_unit_vector_same_x)

text \<open>Claim C4 as stated fails. On a path that turns a right angle at the target, with
  the trajectory along one arm, the closest point is 4 units from both ends, the dot
  product with the start direction is exactly zero, so the two dot products do not
  differ in sign and one of them is negligible; yet the first part of the path is
  replaced by the trajectory segment.\<close>

theorem splice_interior_counterexample:
  "before_splice [(- 5, 0), (- 1, 0), (0, 0)]
     [(0, 4), (0, 3), (0, 2), (0, 1), (0, 0), (1, 0), (2, 0), (3, 0), (4, 0)] (0, 0) 4 =
   Inr \<lparr>filtered_path = [(0, 4), (0, 3), (0, 2), (0, 1), (0, 0), (1, 0), (2, 0), (3, 0), (4, 0)],
        closest_idx = 4, radius = 4,
        traj_segment = [(- 1, 0), (0, 0)], traj_direction = Some (- 1, 0)\<rparr> \<and>
   np_norm (pt_sub (0, 0) (0, 4)) = 4 \<and> np_norm (pt_sub (0, 0) (4, 0)) = 4 \<and>
   get_unit_vector (0, 0) (0, 4) = Inr (0, 1) \<and> get_unit_vector (0, 0) (4, 0) = Inr (1, 0) \<and>
   np_dot (- 1, 0) (0, 1) = 0 \<and> np_dot (- 1, 0) (1, 0) = - 1 \<and>
   construct_reference_path [(- 5, 0), (- 1, 0), (0, 0)]
     [(0, 4), (0, 3), (0, 2), (0, 1), (0, 0), (1, 0), (2, 0), (3, 0), (4, 0)] (0, 0) 4 =
   Some (Inr [(- 1, 0), (0, 0), (0, 0), (1, 0), (2, 0), (3, 0), (4, 0)])"
  by (simp add: construct_reference_path_def densify_bent before_splice_bent splice_bent
        pt_sub_def np_norm_on_x_axis np_norm_on_y_axis np_dot_def get_unit_vector_same_y
        get_unit_vector_same_x)

subsection \<open>Projection onto the quadratic curve\<close>

lemma inv_proj_loop_started:
  "\<exists>t. inv_proj_loop point coeff roots (Some r) (Some (sq_dist point (curve_point coeff r)))
         = (Some t, Some (sq_dist point (curve_point coeff t))) \<and>
       t \<in> set (r # roots) \<and>
       list_all (\<lambda>c. sq_dist point (curve_point coeff t) \<le> sq_dist point (curve_point coeff c))
         (r # roots)"
proof (induction roots arbitrary: r)
  case Nil
  show ?case by simp
next
  case (Cons c roots)
  show ?case
  proof (cases "sq_dist point (curve_point coeff c) < sq_dist point (curve_point coeff r)")
    case True
    from Cons.IH [of c] obtain t where
      t: "inv_proj_loop point coeff roots (Some c) (Some (sq_dist point (curve_point coeff c)))
            = (Some t, Some (sq_dist point (curve_point coeff t)))"
         "t \<in> set (c # roots)"
         "list_all (\<lambda>x. sq_dist point (curve_point coeff t) \<le> sq_dist point (curve_point coeff x))
            (c # roots)"
      by blast
    from t(3) have "sq_dist point (curve_point coeff t) \<le> sq_dist point (curve_point coeff c)"
      by simp
    with True have "sq_dist point (curve_point coeff t) \<le> sq_dist point (curve_point coeff r)"
      by linarith
    with t True show ?thesis by (auto simp: below_def Let_def)
  next
    case False
    from Cons.IH [of r] obtain t where
      t: "inv_proj_loop point coeff roots (Some r) (Some (sq_dist point (curve_point coeff r)))
            = (Some t, Some (sq_dist point (curve_point coeff t)))"
         "t \<in> set (r # roots)"
         "list_all (\<lambda>x. sq_dist point (curve_point coeff t) \<le> sq_dist point (curve_point coeff x))
            (r # roots)"
      by blast
    from t(3) have "sq_dist point (curve_point coeff t) \<le> sq_dist point (curve_point coeff r)"
      by simp
    with False have "sq_dist point (curve_point coeff t) \<le> sq_dist point (curve_point coeff c)"
      by linarith
    with t False show ?thesis by (auto simp: below_def Let_def)
  qed
qed

lemma inv_proj_candidates_range:
  "t \<in> set (inv_proj_candidates np_roots point coeff) \<Longrightarrow> 0 \<le> t \<and> t \<le> 1"
  by (auto simp: inv_proj_candidates_def solve_cubic_def)

lemma inv_proj_returns:
  "\<exists>t. inv_proj np_roots point coeff = Inr (t, curve_point coeff t) \<and> 0 \<le> t \<and> t \<le> 1"
proof -
  define cs where "cs = inv_proj_candidates np_roots point coeff"
  obtain r rs where cs: "cs = r # rs"
    by (cases cs) (auto simp: cs_def inv_proj_candidates_def)
  from inv_proj_loop_started [of point coeff rs r] obtain t where
    t: "inv_proj_loop point coeff rs (Some r) (Some (sq_dist point (curve_point coeff r)))
           = (Some t, Some (sq_dist point (curve_point coeff t)))"
       "t \<in> set (r # rs)"
    by blast
  have "inv_proj_loop point coeff cs None None = (Some t, Some (sq_dist point (curve_point coeff t)))"
    using t(1) by (simp add: cs below_def Let_def)
  then have "inv_proj np_roots point coeff = Inr (t, curve_point coeff t)"
    by (simp add: inv_proj_def cs_def)
  moreover have "0 \<le> t \<and> t \<le> 1"
    using t(2) inv_proj_candidates_range [of t np_roots point coeff] by (simp add: cs_def cs [symmetric])
  ultimately show ?thesis by blast
qed

text \<open>
  Claim C1. Whatever the root finder reports, \<open>inv_proj\<close> returns a parameter \<open>t\<close> with
  the curve point at \<open>t\<close>; \<open>t\<close> lies in \<open>[0, 1]\<close>, is one of the candidates (the reported
  roots that are real and in \<open>[0, 1]\<close>, or one of the boundary values 0 and 1), and no
  candidate is closer to the query point. When no reported root is real and in range,
  \<open>t\<close> is the better of the two boundary values.
\<close>

theorem inv_proj_minimizes:
  "\<exists>t. inv_proj np_roots point coeff = Inr (t, curve_point coeff t) \<and>
       0 \<le> t \<and> t \<le> 1 \<and>
       (t = 0 \<or> t = 1 \<or>
        (\<exists>z \<in> set (np_roots [cubic_c_3 coeff, cubic_c_2 coeff, cubic_c_1 point coeff,
                              cubic_c_0 point coeff]).
           Im z = 0 \<and> 0 \<le> Re z \<and> Re z \<le> 1 \<and> t = Re z)) \<and>
       sq_dist point (curve_point coeff t) \<le> sq_dist point (curve_point coeff 0) \<and>
       sq_dist point (curve_point coeff t) \<le> sq_dist point (curve_point coeff 1) \<and>
       (\<forall>z \<in> set (np_roots [cubic_c_3 coeff, cubic_c_2 coeff, cubic_c_1 point coeff,
                              cubic_c_0 point coeff]).
           Im z = 0 \<and> 0 \<le> Re z \<and> Re z \<le> 1 \<longrightarrow>
           sq_dist point (curve_point coeff t) \<le> sq_dist point (curve_point coeff (Re z))) \<and>
       (solve_cubic np_roots (cubic_c_3 coeff) (cubic_c_2 coeff) (cubic_c_1 point coeff)
          (cubic_c_0 point coeff) (0, 1) = [] \<longrightarrow> t = 0 \<or> t = 1)"
proof -
  define cs where "cs = inv_proj_candidates np_roots point coeff"
  obtain r rs where cs: "cs = r # rs"
    by (cases cs) (auto simp: cs_def inv_proj_candidates_def)
  have first: "inv_proj_loop point coeff cs None None =
      inv_proj_loop point coeff rs (Some r) (Some (sq_dist point (curve_point coeff r)))"
    by (simp add: cs below_def Let_def)
  from inv_proj_loop_started [of point coeff rs r] obtain t where
    t0: "inv_proj_loop point coeff rs (Some r) (Some (sq_dist point (curve_point coeff r)))
           = (Some t, Some (sq_dist point (curve_point coeff t)))"
        "t \<in> set (r # rs)"
        "list_all (\<lambda>c. sq_dist point (curve_point coeff t) \<le> sq_dist point (curve_point coeff c))
           (r # rs)"
    by blast
  have t: "inv_proj_loop point coeff cs None None = (Some t, Some (sq_dist point (curve_point coeff t)))"
       "t \<in> set cs"
       "list_all (\<lambda>c. sq_dist point (curve_point coeff t) \<le> sq_dist point (curve_point coeff c)) cs"
    using t0 first by (simp_all only: cs)
  have res: "inv_proj np_roots point coeff = Inr (t, curve_point coeff t)"
    using t(1) by (simp add: inv_proj_def cs_def)
  have rng: "0 \<le> t \<and> t \<le> 1"
    using t(2) inv_proj_candidates_range unfolding cs_def by blast
  have best: "\<And>c. c \<in> set cs \<Longrightarrow>
      sq_dist point (curve_point coeff t) \<le> sq_dist point (curve_point coeff c)"
    using t(3) by (simp add: list_all_iff)
  have mem: "set cs = {0, 1} \<union> Re ` {z \<in> set (np_roots [cubic_c_3 coeff, cubic_c_2 coeff,
      cubic_c_1 point coeff, cubic_c_0 point coeff]). Im z = 0 \<and> 0 \<le> Re z \<and> Re z \<le> 1}"
    by (auto simp: cs_def inv_proj_candidates_def solve_cubic_def)
  have empty: "solve_cubic np_roots (cubic_c_3 coeff) (cubic_c_2 coeff) (cubic_c_1 point coeff)
          (cubic_c_0 point coeff) (0, 1) = [] \<Longrightarrow> set cs = {0, 1}"
    by (auto simp: cs_def inv_proj_candidates_def)
  show ?thesis
  proof (intro exI [of _ t] conjI)
    show "inv_proj np_roots point coeff = Inr (t, curve_point coeff t)" by (rule res)
    show "0 \<le> t" "t \<le> 1" using rng by simp_all
    show "t = 0 \<or> t = 1 \<or>
        (\<exists>z \<in> set (np_roots [cubic_c_3 coeff, cubic_c_2 coeff, cubic_c_1 point coeff,
                              cubic_c_0 point coeff]).
           Im z = 0 \<and> 0 \<le> Re z \<and> Re z \<le> 1 \<and> t = Re z)"
      using t(2) unfolding mem by auto
    show "sq_dist point (curve_point coeff t) \<le> sq_dist point (curve_point coeff 0)"
      by (rule best) (simp add: mem)
    show "sq_dist point (curve_point coeff t) \<le> sq_dist point (curve_point coeff 1)"
      by (rule best) (simp add: mem)
    show "\<forall>z \<in> set (np_roots [cubic_c_3 coeff, cubic_c_2 coeff, cubic_c_1 point coeff,
                              cubic_c_0 point coeff]).
           Im z = 0 \<and> 0 \<le> Re z \<and> Re z \<le> 1 \<longrightarrow>
           sq_dist point (curve_point coeff t) \<le> sq_dist point (curve_point coeff (Re z))"
      using best unfolding mem by auto
    show "solve_cubic np_roots (cubic_c_3 coeff) (cubic_c_2 coeff) (cubic_c_1 point coeff)
          (cubic_c_0 point coeff) (0, 1) = [] \<longrightarrow> t = 0 \<or> t = 1"
      using empty t(2) by auto
  qed
qed

theorem inv_proj_minimizes_witness:
  "inv_proj (\<lambda>cs. [Complex (1 / 2) 0, Complex 2 0, Complex (1 / 3) 1]) (1 / 2, 1)
      \<lparr>a_2 = 0, a_1 = 1, a_0 = 0, b_2 = 0, b_1 = 0, b_0 = 0\<rparr> = Inr (1 / 2, (1 / 2, 0)) \<and>
   inv_proj (\<lambda>cs. []) (2, 1)
      \<lparr>a_2 = 0, a_1 = 1, a_0 = 0, b_2 = 0, b_1 = 0, b_0 = 0\<rparr> = Inr (1, (1, 0))"
  using inv_proj_minimizes [of "\<lambda>cs. [Complex (1 / 2) 0, Complex 2 0, Complex (1 / 3) 1]" "(1 / 2, 1)"
          "\<lparr>a_2 = 0, a_1 = 1, a_0 = 0, b_2 = 0, b_1 = 0, b_0 = 0\<rparr>"]
        inv_proj_minimizes [of "\<lambda>cs. []" "(2, 1)"
          "\<lparr>a_2 = 0, a_1 = 1, a_0 = 0, b_2 = 0, b_1 = 0, b_0 = 0\<rparr>"]
  by (simp add: inv_proj_def inv_proj_candidates_def solve_cubic_def curve_point_def sq_dist_def
        below_def Let_def)

subsection \<open>Soft targets\<close>

lemma collect_map_total:
  "list_all (\<lambda>x. \<exists>v. f x = Inr v) xs \<Longrightarrow> collect (map f xs) = Inr (map (\<lambda>x. projr (f x)) xs)"
  by (induction xs) auto

lemma traj_dist_of_total:
  "\<exists>td. traj_dist_of np_roots qp goal = Inr td \<and> (qp = None \<longrightarrow> td = 0) \<and>
        (\<forall>coeff. qp = Some coeff \<longrightarrow>
           (\<exists>t. inv_proj np_roots goal coeff = Inr (t, curve_point coeff t) \<and>
                td = get_dis_p2p goal (curve_point coeff t)))"
proof (cases qp)
  case None
  then show ?thesis by (simp add: traj_dist_of_def)
next
  case (Some coeff)
  from inv_proj_returns [of np_roots goal coeff] obtain t where
    "inv_proj np_roots goal coeff = Inr (t, curve_point coeff t)" by blast
  with Some show ?thesis by (simp add: traj_dist_of_def)
qed

text \<open>
  Claim C5. With a ground-truth goal (the last label) and a temperature \<open>T\<close> other than
  zero, \<open>get_dense_goal_targets\<close> returns one target for each lattice goal, in order.
  For a goal at distance \<open>goal_dist \<le> thres\<close> of the ground truth the target is
  \<open>max (-0.5 K1 goal_dist\<^sup>2 - 0.5 K2 traj_dist\<^sup>2) (-1e9) / T\<close>, where \<open>traj_dist\<close> is the
  distance from the goal to the curve point that \<open>inv_proj\<close> returns for it, and 0 when
  \<open>quadratic_path\<close> is \<open>None\<close>; for a farther goal the target is \<open>-1e9 / T\<close>. The
  threshold is a parameter, 15 by default.
\<close>

theorem get_dense_goal_targets_values:
  assumes "labels mp \<noteq> []" and "T \<noteq> 0"
  shows "\<exists>targets. get_dense_goal_targets np_roots dense_goals mp T K1 K2 thres = Inr targets \<and>
     length targets = length dense_goals \<and>
     (\<forall>i < length dense_goals.
        \<exists>traj_dist. traj_dist_of np_roots (quadratic_path mp) (dense_goals ! i) = Inr traj_dist \<and>
          (quadratic_path mp = None \<longrightarrow> traj_dist = 0) \<and>
          (\<forall>coeff. quadratic_path mp = Some coeff \<longrightarrow>
             (\<exists>t. inv_proj np_roots (dense_goals ! i) coeff = Inr (t, curve_point coeff t) \<and>
                  traj_dist = get_dis_p2p (dense_goals ! i) (curve_point coeff t))) \<and>
          targets ! i =
            (if get_dis_p2p (dense_goals ! i) (last (labels mp)) \<le> thres
             then max (- (1 / 2) * K1 * (get_dis_p2p (dense_goals ! i) (last (labels mp)))\<^sup>2
                       - (1 / 2) * K2 * traj_dist\<^sup>2) (- (10 ^ 9)) / T
             else - (10 ^ 9) / T))"
proof -
  define f where "f = dense_goal_target np_roots (quadratic_path mp) T K1 K2 thres (last (labels mp))"
  define Q where "Q = (\<lambda>goal traj_dist v.
          traj_dist_of np_roots (quadratic_path mp) goal = Inr traj_dist \<and>
          (quadratic_path mp = None \<longrightarrow> traj_dist = 0) \<and>
          (\<forall>coeff. quadratic_path mp = Some coeff \<longrightarrow>
             (\<exists>t. inv_proj np_roots goal coeff = Inr (t, curve_point coeff t) \<and>
                  traj_dist = get_dis_p2p goal (curve_point coeff t))) \<and>
          v =
            (if get_dis_p2p goal (last (labels mp)) \<le> thres
             then max (- (1 / 2) * K1 * (get_dis_p2p goal (last (labels mp)))\<^sup>2
                       - (1 / 2) * K2 * traj_dist\<^sup>2) (- (10 ^ 9)) / T
             else - (10 ^ 9) / T))"
  have idx: "py_index (labels mp) (- 1) = Inr (last (labels mp))"
    using assms(1) by (simp add: py_index_last)
  have value_of: "\<exists>v td. f goal = Inr v \<and> Q goal td v" for goal
  proof -
    from traj_dist_of_total [of np_roots "quadratic_path mp" goal] obtain td where
      td: "traj_dist_of np_roots (quadratic_path mp) goal = Inr td \<and>
          (quadratic_path mp = None \<longrightarrow> td = 0) \<and>
          (\<forall>coeff. quadratic_path mp = Some coeff \<longrightarrow>
             (\<exists>t. inv_proj np_roots goal coeff = Inr (t, curve_point coeff t) \<and>
                  td = get_dis_p2p goal (curve_point coeff t)))"
      by (elim exE)
    have "f goal = Inr (if get_dis_p2p goal (last (labels mp)) \<le> thres
             then max (- (1 / 2) * K1 * (get_dis_p2p goal (last (labels mp)))\<^sup>2
                       - (1 / 2) * K2 * td\<^sup>2) (- (10 ^ 9)) / T
             else - (10 ^ 9) / T)"
      using assms(2) td by (simp add: f_def dense_goal_target_def Let_def)
    moreover have "Q goal td (if get_dis_p2p goal (last (labels mp)) \<le> thres
             then max (- (1 / 2) * K1 * (get_dis_p2p goal (last (labels mp)))\<^sup>2
                       - (1 / 2) * K2 * td\<^sup>2) (- (10 ^ 9)) / T
             else - (10 ^ 9) / T)"
      unfolding Q_def using td by simp
    ultimately show ?thesis by blast
  qed
  have total: "list_all (\<lambda>goal. \<exists>v. f goal = Inr v) dense_goals"
    unfolding list_all_iff using value_of by blast
  have res: "get_dense_goal_targets np_roots dense_goals mp T K1 K2 thres
      = Inr (map (\<lambda>goal. projr (f goal)) dense_goals)"
    using collect_map_total [OF total] idx by (simp add: get_dense_goal_targets_def f_def)
  have each: "\<exists>traj_dist. Q (dense_goals ! i) traj_dist (map (\<lambda>goal. projr (f goal)) dense_goals ! i)"
    if "i < length dense_goals" for i
  proof -
    from value_of [of "dense_goals ! i"] obtain v td where
      v: "f (dense_goals ! i) = Inr v" "Q (dense_goals ! i) td v" by blast
    from v(1) that have "map (\<lambda>goal. projr (f goal)) dense_goals ! i = v" by simp
    with v(2) show ?thesis by blast
  qed
  have "length (map (\<lambda>goal. projr (f goal)) dense_goals) = length dense_goals" by simp
  with res each show ?thesis unfolding Q_def by blast
qed

theorem get_dense_goal_targets_values_witness:
  "get_dense_goal_targets (\<lambda>cs. [Complex (1 / 2) 0]) [(5, 0), (30, 0)]
     \<lparr>labels = [(1, 0), (0, 0)],
      quadratic_path = Some \<lparr>a_2 = 0, a_1 = 10, a_0 = 0, b_2 = 0, b_1 = 0, b_0 = 1\<rparr>\<rparr> 50 1 2 15
   = Inr [- (27 / 100), - (2 * 10 ^ 7)]"
  using get_dense_goal_targets_values [of
     "\<lparr>labels = [(1, 0), (0, 0)],
      quadratic_path = Some \<lparr>a_2 = 0, a_1 = 10, a_0 = 0, b_2 = 0, b_1 = 0, b_0 = 1\<rparr>\<rparr>" 50
     "\<lambda>cs. [Complex (1 / 2) 0]" "[(5, 0), (30, 0)]" 1 2 15]
  by (simp add: get_dense_goal_targets_def dense_goal_target_def traj_dist_of_def py_index_def
        inv_proj_def inv_proj_candidates_def solve_cubic_def curve_point_def sq_dist_def
        below_def Let_def get_dis_p2p_same_y get_dis_p2p_same_x)

subsection \<open>Square-square energy loss\<close>

text \<open>
  Claim C6, as the code has it. Whenever \<open>square_square_energy_loss_from_prep\<close> returns,
  the loss is not negative. The loss is the square of the target score plus a term of the
  offending score, so it grows strictly with the target score only where that score is
  not negative and the offending index is another one: for a target index \<open>t\<close> in range,
  an offending index that is absent or in range and different from \<open>t\<close>, and target
  scores \<open>0 \<le> v < w\<close>, the loss with \<open>v\<close> at \<open>t\<close> is below the loss with \<open>w\<close> at \<open>t\<close>, all
  other scores being the same.
\<close>

theorem square_square_energy_loss_nonneg_increasing:
  "(square_square_energy_loss_from_prep scores t mo m eps = Inr loss \<longrightarrow> 0 \<le> loss) \<and>
   (0 \<le> t \<and> t < int (length scores) \<and>
    (case mo of None \<Rightarrow> True
     | Some j \<Rightarrow> - int (length scores) \<le> j \<and> j < int (length scores) \<and> j \<noteq> t \<and>
                 j + int (length scores) \<noteq> t) \<and>
    0 \<le> v \<and> v < w \<longrightarrow>
    (\<exists>l1 l2. square_square_energy_loss_from_prep (scores[nat t := v]) t mo m eps = Inr l1 \<and>
             square_square_energy_loss_from_prep (scores[nat t := w]) t mo m eps = Inr l2 \<and>
             l1 < l2))"
proof (intro conjI impI)
  assume "square_square_energy_loss_from_prep scores t mo m eps = Inr loss"
  then show "0 \<le> loss"
    by (auto simp: square_square_energy_loss_from_prep_def Let_def
          split: sum.splits option.splits if_splits)
next
  assume a: "0 \<le> t \<and> t < int (length scores) \<and>
    (case mo of None \<Rightarrow> True
     | Some j \<Rightarrow> - int (length scores) \<le> j \<and> j < int (length scores) \<and> j \<noteq> t \<and>
                 j + int (length scores) \<noteq> t) \<and>
    0 \<le> v \<and> v < w"
  then have t: "0 \<le> t" "t < int (length scores)" and vw: "0 \<le> v" "v < w" by simp_all
  have sq: "v\<^sup>2 < w\<^sup>2"
    using vw by (simp add: power_strict_mono)
  show "\<exists>l1 l2. square_square_energy_loss_from_prep (scores[nat t := v]) t mo m eps = Inr l1 \<and>
             square_square_energy_loss_from_prep (scores[nat t := w]) t mo m eps = Inr l2 \<and>
             l1 < l2"
  proof (cases mo)
    case None
    with t sq show ?thesis
      by (simp add: square_square_energy_loss_from_prep_def py_index_update_same)
  next
    case (Some j)
    with a have j: "- int (length scores) \<le> j" "j < int (length scores)" "j \<noteq> t"
      "j + int (length scores) \<noteq> t" by simp_all
    from j(1,2) have "\<exists>e. py_index scores j = Inr e"
      by (rule py_index_in_range)
    then obtain e where e: "py_index scores j = Inr e" ..
    have "py_index (scores[nat t := v]) j = Inr e" "py_index (scores[nat t := w]) j = Inr e"
      using t j e by (simp_all add: py_index_update_other)
    with Some t sq show ?thesis
      by (simp add: square_square_energy_loss_from_prep_def py_index_update_same Let_def)
  qed
qed

theorem square_square_energy_loss_nonneg_increasing_witness:
  "square_square_energy_loss_from_prep [1, 3] 0 (Some 1) 10 10 = Inr 50 \<and>
   square_square_energy_loss_from_prep [2, 3] 0 (Some 1) 10 10 = Inr 53"
  using square_square_energy_loss_nonneg_increasing [of "[1, 3]" 0 "Some 1" 10 10 50 1 2]
  by (simp add: square_square_energy_loss_from_prep_def py_index_def)

text \<open>Claim C6 as stated fails: raising a negative target score from \<open>-2\<close> to \<open>-1\<close>
  lowers the loss from 4 to 1, and when the offending index is the target index, raising
  the score from 0 to 1 lowers the loss from 100 to 82.\<close>

theorem square_square_energy_loss_counterexample:
  "square_square_energy_loss_from_prep [- 2] 0 None 10 10 = Inr 4 \<and>
   square_square_energy_loss_from_prep [- 1] 0 None 10 10 = Inr 1 \<and>
   square_square_energy_loss_from_prep [0] 0 (Some 0) 10 10 = Inr 100 \<and>
   square_square_energy_loss_from_prep [1] 0 (Some 0) 10 10 = Inr 82"
  by (simp add: square_square_energy_loss_from_prep_def py_index_def)

subsection \<open>Centroid refinement\<close>

lemma fde_first_round_fails:
  "fde_round scores goals R centroids = Inl e \<Longrightarrow> 0 < L \<Longrightarrow>
   get_optimal_targets_home_FDE scores goals centroids L R = Inl e"
  by (cases L) simp_all

lemma fde_round_no_goal_in_radius:
  "fde_round [1] [(0, 0)] 3 [(10, 0), (10, 0), (10, 0), (10, 0), (10, 0), (10, 0)] = Inl NotFinite"
  by (simp add: fde_round_def fde_centroid_def fde_idx_def fde_weights_def fde_dist_def
        get_dis_p2p_same_y upt_rec)

lemma fde_round_zero_score:
  "fde_round [0] [(0, 0)] 3 [(0, 0), (0, 0), (0, 0), (0, 0), (0, 0), (0, 0)] = Inl NotFinite"
  by (simp add: fde_round_def fde_centroid_def fde_idx_def fde_weights_def fde_dist_def
        get_dis_p2p_same_y upt_rec)

lemma fde_centroid_zero_divisor:
  "\<not> list_ex (\<lambda>i. length scores \<le> i) (fde_idx dist_m k R) \<Longrightarrow>
   sum_list (fde_weights scores dist_m k (fde_idx dist_m k R)) = 0 \<Longrightarrow>
   fde_centroid scores goals dist_m R k = Inl NotFinite"
  by (simp add: fde_centroid_def Let_def)

lemma fde_centroid_no_goal_in_radius:
  "fde_idx dist_m k R = [] \<Longrightarrow> fde_centroid scores goals dist_m R k = Inl NotFinite"
  by (simp add: fde_centroid_def fde_weights_def Let_def)

text \<open>
  Claim C10. The new centroid is a quotient by the sum of the weights of the goals within
  \<open>R\<close> of the old one, with no test of the divisor. With the default \<open>L = 4\<close> and
  \<open>R = 3\<close>: for one goal at the origin and six centroids at \<open>(10, 0)\<close> no goal is within
  the radius, the sum of the weights for centroid 0 is zero and no centroid is returned;
  for one goal of score zero at the origin and six centroids at the origin the goal is
  within the radius, the sum of the weights is zero again and no centroid is returned.
\<close>

theorem fde_divisor_zero:
  "fde_idx (fde_dist [(0, 0)] [(10, 0), (10, 0), (10, 0), (10, 0), (10, 0), (10, 0)]) 0 3 = [] \<and>
   sum_list (fde_weights [1] (fde_dist [(0, 0)] [(10, 0), (10, 0), (10, 0), (10, 0), (10, 0), (10, 0)]) 0
       (fde_idx (fde_dist [(0, 0)] [(10, 0), (10, 0), (10, 0), (10, 0), (10, 0), (10, 0)]) 0 3)) = 0 \<and>
   get_optimal_targets_home_FDE [1] [(0, 0)] [(10, 0), (10, 0), (10, 0), (10, 0), (10, 0), (10, 0)] 4 3
     = Inl NotFinite \<and>
   fde_idx (fde_dist [(0, 0)] [(0, 0), (0, 0), (0, 0), (0, 0), (0, 0), (0, 0)]) 0 3 = [0] \<and>
   sum_list (fde_weights [0] (fde_dist [(0, 0)] [(0, 0), (0, 0), (0, 0), (0, 0), (0, 0), (0, 0)]) 0
       (fde_idx (fde_dist [(0, 0)] [(0, 0), (0, 0), (0, 0), (0, 0), (0, 0), (0, 0)]) 0 3)) = 0 \<and>
   get_optimal_targets_home_FDE [0] [(0, 0)] [(0, 0), (0, 0), (0, 0), (0, 0), (0, 0), (0, 0)] 4 3
     = Inl NotFinite"
proof (intro conjI)
  show "get_optimal_targets_home_FDE [1] [(0, 0)]
      [(10, 0), (10, 0), (10, 0), (10, 0), (10, 0), (10, 0)] 4 3 = Inl NotFinite"
    by (rule fde_first_round_fails [OF fde_round_no_goal_in_radius]) simp
  show "get_optimal_targets_home_FDE [0] [(0, 0)]
      [(0, 0), (0, 0), (0, 0), (0, 0), (0, 0), (0, 0)] 4 3 = Inl NotFinite"
    by (rule fde_first_round_fails [OF fde_round_zero_score]) simp
qed (simp_all add: fde_idx_def fde_weights_def fde_dist_def get_dis_p2p_same_y upt_rec)

end
